theory Spec2Isabelle
  imports Main "HOL-Library.Char_ord" "HOL-Library.List_Lexorder"
begin

section \<open>Values of the request and of the recipe store\<close>

text \<open>
  The route handlers of \<^verbatim>\<open>backend/routes/recipes.js\<close> read a request (route parameter,
  multipart body, optional uploaded file, the user attached by the \<^verbatim>\<open>protect\<close> middleware)
  and read and write recipe documents. A JavaScript string is a \<^typ>\<open>string\<close>: a sequence of
  code units, here the code units below 256. An ObjectId is the string that prints it.
  A number is an integer: the handlers only test numbers for truth. The creation time of a
  recipe is left out: no handler below reads it.
\<close>

type_synonym objectId = string

datatype jsval =
    JUndefined
  | JNull
  | JBool bool
  | JNum int
  | JStr string
  | JArr "jsval list"
  | JObj "(string \<times> jsval) list"

text \<open>\<^verbatim>\<open>if (v)\<close>, \<^verbatim>\<open>!v\<close> and \<^verbatim>\<open>Boolean(v)\<close>: JavaScript's ToBoolean.\<close>

fun truthy :: "jsval \<Rightarrow> bool" where
  "truthy JUndefined = False"
| "truthy JNull = False"
| "truthy (JBool b) = b"
| "truthy (JNum n) = (n \<noteq> 0)"
| "truthy (JStr s) = (s \<noteq> [])"
| "truthy (JArr xs) = True"
| "truthy (JObj kvs) = True"

text \<open>\<^verbatim>\<open>Array.isArray(v)\<close>, and the elements of a value that is an array.\<close>

fun isArray :: "jsval \<Rightarrow> bool" where
  "isArray (JArr xs) = True"
| "isArray v = False"

fun elements :: "jsval \<Rightarrow> jsval list" where
  "elements (JArr xs) = xs"
| "elements v = []"

text \<open>\<^verbatim>\<open>req.body\<close> is an object: keys in insertion order, a key bound at most once
  (the first binding of a key is the one a lookup sees).\<close>

type_synonym jsobject = "(string \<times> jsval) list"

definition get_field :: "jsobject \<Rightarrow> string \<Rightarrow> jsval" where
  "get_field obj k = (case map_of obj k of None \<Rightarrow> JUndefined | Some v \<Rightarrow> v)"

definition Object_keys :: "jsobject \<Rightarrow> string list" where
  "Object_keys obj = remdups (map fst obj)"

record recipe =
  title :: jsval
  description :: jsval
  instructions :: jsval
  category :: jsval
  cookingTime :: jsval
  ingredients :: "jsval list"
  image_url :: "string option"
  createdBy :: objectId
  likedBy :: "objectId list"

record user =
  uid :: objectId
  email :: string

record upload =
  path :: "string option"
  secure_url :: "string option"

record request =
  params_id :: string
  body :: jsobject
  req_file :: "upload option"

text \<open>The recipe collection: the documents by their \<^verbatim>\<open>_id\<close>.\<close>

type_synonym store = "objectId \<rightharpoonup> recipe"

datatype payload =
    Message string
  | RecipeDoc recipe
  | RecipeView recipe bool nat
  | Updated string recipe
  | LikeResult bool nat

type_synonym response = "nat \<times> payload"

text \<open>
  What the handlers call and the repository does not define: the Mongoose and Cloudinary
  clients and the JavaScript runtime. \<open>isValid\<close> is \<^verbatim>\<open>mongoose.Types.ObjectId.isValid\<close>;
  \<open>save_ok\<close>, \<open>deleteOne_ok\<close> tell whether \<^verbatim>\<open>recipe.save()\<close>, \<^verbatim>\<open>recipe.deleteOne()\<close> resolve
  (schema validation and the database); \<open>destroy_ok\<close> tells whether
  \<^verbatim>\<open>cloudinary.uploader.destroy(publicId)\<close> resolves; \<open>JSON_parse\<close> is \<^verbatim>\<open>JSON.parse\<close> on a
  string, \<open>None\<close> when it throws; \<open>new_id\<close> is the \<^verbatim>\<open>_id\<close> that \<^verbatim>\<open>new Recipe\<close> draws.
\<close>

record env =
  CLOUDINARY_CONFIG_OK :: bool
  isValid :: "string \<Rightarrow> bool"
  save_ok :: "recipe \<Rightarrow> bool"
  deleteOne_ok :: "recipe \<Rightarrow> bool"
  destroy_ok :: "string \<Rightarrow> bool"
  JSON_parse :: "string \<Rightarrow> jsval option"
  new_id :: objectId

datatype error = CastError | TypeError | UpstreamError

text \<open>\<^verbatim>\<open>Recipe.findById(id)\<close>: the query rejects with a CastError when the id cannot be cast
  to an ObjectId, and resolves to the document or to null otherwise.\<close>

definition findById :: "env \<Rightarrow> store \<Rightarrow> string \<Rightarrow> error + recipe option" where
  "findById e st i = (if isValid e i then Inr (st i) else Inl CastError)"

definition server_error :: response where
  "server_error = (500, Message ''Server error'')"

definition not_found :: response where
  "not_found = (404, Message ''Recipe not found'')"

definition not_authorized :: response where
  "not_authorized = (401, Message ''Not authorized'')"

section \<open>Like / unlike: POST /:id/like\<close>

text \<open>\<^verbatim>\<open>xs.findIndex(p)\<close>: the first index whose element satisfies \<open>p\<close>, or -1.\<close>

fun findIndex :: "('a \<Rightarrow> bool) \<Rightarrow> 'a list \<Rightarrow> int" where
  "findIndex p [] = - 1"
| "findIndex p (x # xs) =
     (if p x then 0 else (let i = findIndex p xs in if i = - 1 then - 1 else i + 1))"

text \<open>\<^verbatim>\<open>xs.splice(start, 1)\<close>, the array left behind: a negative start counts from the end.\<close>

definition splice1 :: "int \<Rightarrow> 'a list \<Rightarrow> 'a list" where
  "splice1 start xs =
     (let len = int (length xs);
          k = (if start < 0 then max (len + start) 0 else min start len)
      in take (nat k) xs @ drop (nat k + 1) xs)"

text \<open>Lines 202-208: the array of likers after the toggle by \<open>userId\<close>.\<close>

definition toggle_likedBy :: "objectId \<Rightarrow> objectId list \<Rightarrow> objectId list" where
  "toggle_likedBy userId xs =
     (let likedIndex = findIndex (\<lambda>i. i = userId) xs
      in if likedIndex = - 1 then xs @ [userId] else splice1 likedIndex xs)"

definition like_recipe :: "env \<Rightarrow> user \<Rightarrow> string \<Rightarrow> store \<Rightarrow> response \<times> store" where
  "like_recipe e u rid st =
     (case findById e st rid of
        Inl err \<Rightarrow> (server_error, st)
      | Inr None \<Rightarrow> (not_found, st)
      | Inr (Some recipe) \<Rightarrow>
          (let userId = uid u;
               likedIndex = findIndex (\<lambda>i. i = userId) (likedBy recipe);
               recipe' = recipe\<lparr>likedBy := toggle_likedBy userId (likedBy recipe)\<rparr>
           in if save_ok e recipe'
              then ((200, LikeResult (likedIndex = - 1) (length (likedBy recipe'))),
                    st(rid \<mapsto> recipe'))
              else (server_error, st)))"

section \<open>Ingredient parsing\<close>

text \<open>\<^verbatim>\<open>k.startsWith(p)\<close>.\<close>

definition startsWith :: "string \<Rightarrow> string \<Rightarrow> bool" where
  "startsWith k p = (take (length p) k = p)"

text \<open>The decimal digits of a natural number, for \<^verbatim>\<open>String(n)\<close>.\<close>

fun digits :: "nat \<Rightarrow> string" where
  "digits n =
     (if n < 10 then [char_of (48 + n)]
      else digits (n div 10) @ [char_of (48 + n mod 10)])"

declare digits.simps [simp del]

fun join :: "string \<Rightarrow> string list \<Rightarrow> string" where
  "join sep [] = []"
| "join sep [x] = x"
| "join sep (x # y # ys) = x @ sep @ join sep (y # ys)"

text \<open>
  JavaScript's ToString, which \<^verbatim>\<open>JSON.parse\<close> applies to its argument: an array prints its
  elements separated by commas, null and undefined elements as the empty string.
\<close>

fun ToString :: "jsval \<Rightarrow> string" where
  "ToString JUndefined = ''undefined''"
| "ToString JNull = ''null''"
| "ToString (JBool b) = (if b then ''true'' else ''false'')"
| "ToString (JNum n) = (if n < 0 then CHR ''-'' # digits (nat (- n)) else digits (nat n))"
| "ToString (JStr s) = s"
| "ToString (JArr xs) =
     join '','' (map (\<lambda>x. if x = JUndefined \<or> x = JNull then [] else ToString x) xs)"
| "ToString (JObj kvs) = ''[object Object]''"

text \<open>
  The keys \<^verbatim>\<open>ingredients[...]\<close> of the body in the order of \<^verbatim>\<open>Array.prototype.sort()\<close>
  with no comparator (strings by their code units, a proper prefix first), each replaced
  by its value.
\<close>

definition indexed_ingredients :: "jsobject \<Rightarrow> jsval list" where
  "indexed_ingredients b =
     map (get_field b) (sort (filter (\<lambda>k. startsWith k ''ingredients['') (Object_keys b)))"

text \<open>Lines 227-245: \<^verbatim>\<open>ingredientsArray\<close> of the create handler.\<close>

definition create_ingredientsArray :: "env \<Rightarrow> jsobject \<Rightarrow> jsval list" where
  "create_ingredientsArray e b =
     (let ing = get_field b ''ingredients'' in
      if truthy ing then
        (case JSON_parse e (ToString ing) of
           Some parsed \<Rightarrow> if \<not> isArray parsed then [ing] else elements parsed
         | None \<Rightarrow> if isArray ing then elements ing else [ing])
      else indexed_ingredients b)"

text \<open>Lines 293-303: \<^verbatim>\<open>ingredientsArray\<close> of the update handler.\<close>

definition update_ingredientsArray :: "jsobject \<Rightarrow> jsval list" where
  "update_ingredientsArray b =
     (let ing = get_field b ''ingredients'' in
      if truthy ing then (if isArray ing then elements ing else [ing])
      else indexed_ingredients b)"

text \<open>\<^verbatim>\<open>s.trim()\<close>: the white space and line terminators among the code units below 256.\<close>

definition is_space :: "char \<Rightarrow> bool" where
  "is_space c = (of_char c \<in> {9, 10, 11, 12, 13, 32, 160 :: nat})"

definition trim :: "string \<Rightarrow> string" where
  "trim s = rev (dropWhile is_space (rev (dropWhile is_space s)))"

text \<open>\<^verbatim>\<open>xs.filter((i) => i.trim() !== "")\<close>: a TypeError on an element that is no string.\<close>

fun filter_trim :: "jsval list \<Rightarrow> error + jsval list" where
  "filter_trim [] = Inr []"
| "filter_trim (JStr s # xs) =
     (case filter_trim xs of
        Inl err \<Rightarrow> Inl err
      | Inr ys \<Rightarrow> Inr (if trim s \<noteq> [] then JStr s # ys else ys))"
| "filter_trim (v # xs) = Inl TypeError"

section \<open>The Media Sidecar\<close>

text \<open>\<^verbatim>\<open>s.split(c)\<close> for a separator of one character.\<close>

fun split_on :: "char \<Rightarrow> string \<Rightarrow> string list" where
  "split_on c [] = [[]]"
| "split_on c (x # xs) =
     (if x = c then [] # split_on c xs
      else (case split_on c xs of [] \<Rightarrow> [[x]] | p # ps \<Rightarrow> (x # p) # ps))"

text \<open>\<^verbatim>\<open>recipe.image.split("/").slice(-1)[0].split(".")[0]\<close>.\<close>

definition publicId :: "string \<Rightarrow> string" where
  "publicId url = hd (split_on CHR ''.'' (last (split_on CHR ''/'' url)))"

text \<open>\<^verbatim>\<open>await cloudinary.uploader.destroy(publicId)\<close>: the promise resolves or rejects.\<close>

definition destroy :: "env \<Rightarrow> string \<Rightarrow> error + unit" where
  "destroy e p = (if destroy_ok e p then Inr () else Inl UpstreamError)"

text \<open>\<^verbatim>\<open>promise.catch((err) => console.error(...))\<close>: a rejection is logged and dropped.\<close>

definition catch_log :: "error + unit \<Rightarrow> error + unit" where
  "catch_log r = (case r of Inl err \<Rightarrow> Inr () | Inr x \<Rightarrow> Inr x)"

text \<open>\<^verbatim>\<open>recipe.image && CLOUDINARY_CONFIG_OK\<close>, with the image to delete.\<close>

definition has_image :: "env \<Rightarrow> recipe \<Rightarrow> string option" where
  "has_image e r =
     (case image_url r of
        None \<Rightarrow> None
      | Some url \<Rightarrow> if url \<noteq> [] \<and> CLOUDINARY_CONFIG_OK e then Some url else None)"

text \<open>\<^verbatim>\<open>req.file.path || req.file.secure_url\<close>.\<close>

definition file_url :: "upload \<Rightarrow> string option" where
  "file_url f =
     (case path f of
        None \<Rightarrow> secure_url f
      | Some p \<Rightarrow> if p \<noteq> [] then Some p else secure_url f)"

section \<open>Get by id: GET /:id\<close>

text \<open>Lines 170-190. The response shows \<^verbatim>\<open>createdBy\<close> expanded to the creator's username and
  email; the user collection is not part of the model, and the view carries the recipe as
  stored.\<close>

definition get_recipe :: "env \<Rightarrow> user option \<Rightarrow> string \<Rightarrow> store \<Rightarrow> response" where
  "get_recipe e viewer rid st =
     (if \<not> isValid e rid then (400, Message ''Invalid ID'')
      else
        (case findById e st rid of
           Inl err \<Rightarrow> server_error
         | Inr None \<Rightarrow> not_found
         | Inr (Some recipe) \<Rightarrow>
             (let likedByUser =
                    (case viewer of
                       None \<Rightarrow> False
                     | Some u \<Rightarrow> list_ex (\<lambda>i. i = uid u) (likedBy recipe))
              in (200, RecipeView recipe likedByUser (length (likedBy recipe))))))"

section \<open>Create: POST /\<close>

definition missing_fields :: response where
  "missing_fields =
     (400, Message ''Missing required fields: title, ingredients, instructions, category'')"

text \<open>
  \<^verbatim>\<open>new Recipe({...})\<close> of lines 258-267. The handler gives no \<^verbatim>\<open>likedBy\<close>; the schema
  (\<^verbatim>\<open>models/Recipe.js\<close>) decides it.
  Modelled from the spec: the Recipe schema, whose array of likers starts empty
  (a recipe just created has \<^verbatim>\<open>likes == 0\<close>).
\<close>

definition new_Recipe :: "user \<Rightarrow> request \<Rightarrow> jsval list \<Rightarrow> recipe" where
  "new_Recipe u req ingredientsArray =
     \<lparr>title = get_field (body req) ''title'',
      description = get_field (body req) ''description'',
      instructions = get_field (body req) ''instructions'',
      category = get_field (body req) ''category'',
      cookingTime = get_field (body req) ''cookingTime'',
      ingredients = filter truthy ingredientsArray,
      image_url = (case req_file req of None \<Rightarrow> None | Some f \<Rightarrow> file_url f),
      createdBy = uid u,
      likedBy = []\<rparr>"

text \<open>\<^verbatim>\<open>recipe.save()\<close> of a new document inserts it: the insert is refused when the
  \<^verbatim>\<open>_id\<close> is taken.\<close>

definition create_recipe :: "env \<Rightarrow> user \<Rightarrow> request \<Rightarrow> store \<Rightarrow> response \<times> store" where
  "create_recipe e u req st =
     (let ingredientsArray = create_ingredientsArray e (body req) in
      if \<not> truthy (get_field (body req) ''title'')
         \<or> \<not> truthy (get_field (body req) ''instructions'')
         \<or> \<not> truthy (get_field (body req) ''category'')
         \<or> length ingredientsArray = 0
      then (missing_fields, st)
      else
        (let recipe = new_Recipe u req ingredientsArray in
         if save_ok e recipe \<and> st (new_id e) = None
         then ((201, RecipeDoc recipe), st(new_id e \<mapsto> recipe))
         else (server_error, st)))"

section \<open>Update: PUT /:id\<close>

text \<open>Lines 308-327: the image of the recipe. An exception leaves the handler's try block.\<close>

definition update_image :: "env \<Rightarrow> request \<Rightarrow> recipe \<Rightarrow> error + recipe" where
  "update_image e req recipe =
     (case req_file req of
        Some f \<Rightarrow>
          (case file_url f of
             None \<Rightarrow> Inr recipe
           | Some newImageUrl \<Rightarrow>
               if newImageUrl = [] then Inr recipe
               else
                 (case (case has_image e recipe of
                          None \<Rightarrow> Inr ()
                        | Some old \<Rightarrow> catch_log (destroy e (publicId old))) of
                    Inl err \<Rightarrow> Inl err
                  | Inr done \<Rightarrow> Inr (recipe\<lparr>image_url := Some newImageUrl\<rparr>)))
      | None \<Rightarrow>
          if get_field (body req) ''clearImage'' = JStr ''true''
          then
            (case (case has_image e recipe of
                     None \<Rightarrow> Inr ()
                   | Some old \<Rightarrow> destroy e (publicId old)) of
               Inl err \<Rightarrow> Inl err
             | Inr done \<Rightarrow> Inr (recipe\<lparr>image_url := Some []\<rparr>))
          else Inr recipe)"

text \<open>Lines 330-334: a field of the body replaces the stored one when it is truthy.\<close>

definition update_fields :: "jsobject \<Rightarrow> recipe \<Rightarrow> recipe" where
  "update_fields b recipe =
     (let r1 = (if truthy (get_field b ''title'')
                then recipe\<lparr>title := get_field b ''title''\<rparr> else recipe);
          r2 = (if truthy (get_field b ''description'')
                then r1\<lparr>description := get_field b ''description''\<rparr> else r1);
          r3 = (if truthy (get_field b ''instructions'')
                then r2\<lparr>instructions := get_field b ''instructions''\<rparr> else r2);
          r4 = (if truthy (get_field b ''category'')
                then r3\<lparr>category := get_field b ''category''\<rparr> else r3)
      in if truthy (get_field b ''cookingTime'')
         then r4\<lparr>cookingTime := get_field b ''cookingTime''\<rparr> else r4)"

text \<open>Lines 336-338.\<close>

definition update_ingredients :: "jsval list \<Rightarrow> recipe \<Rightarrow> error + recipe" where
  "update_ingredients ingredientsArray recipe =
     (if length ingredientsArray > 0
      then (case filter_trim ingredientsArray of
              Inl err \<Rightarrow> Inl err
            | Inr kept \<Rightarrow> Inr (recipe\<lparr>ingredients := kept\<rparr>))
      else Inr recipe)"

text \<open>Lines 292-341: the handler after the authorization check, up to the document that
  \<^verbatim>\<open>recipe.save()\<close> is called on.\<close>

definition updated_recipe :: "env \<Rightarrow> request \<Rightarrow> recipe \<Rightarrow> error + recipe" where
  "updated_recipe e req recipe =
     (let ingredientsArray = update_ingredientsArray (body req) in
      case update_image e req recipe of
        Inl err \<Rightarrow> Inl err
      | Inr r1 \<Rightarrow> update_ingredients ingredientsArray (update_fields (body req) r1))"

definition save_update :: "env \<Rightarrow> request \<Rightarrow> recipe \<Rightarrow> store \<Rightarrow> response \<times> store" where
  "save_update e req recipe st =
     (case updated_recipe e req recipe of
        Inl err \<Rightarrow> (server_error, st)
      | Inr recipe' \<Rightarrow>
          if save_ok e recipe'
          then ((200, Updated ''Recipe updated successfully'' recipe'),
                st(params_id req \<mapsto> recipe'))
          else (server_error, st))"

definition update_recipe :: "env \<Rightarrow> user \<Rightarrow> request \<Rightarrow> store \<Rightarrow> response \<times> store" where
  "update_recipe e u req st =
     (case findById e st (params_id req) of
        Inl err \<Rightarrow> (server_error, st)
      | Inr None \<Rightarrow> (not_found, st)
      | Inr (Some recipe) \<Rightarrow>
          (let isAdmin = (email u = ''admin@gmail.com'');
               isOwner = (createdBy recipe = uid u)
           in if \<not> isAdmin \<and> \<not> isOwner then (not_authorized, st)
              else save_update e req recipe st))"

section \<open>Delete: DELETE /:id\<close>

text \<open>Lines 364-371: the handler after the authorization check.\<close>

definition remove_recipe :: "env \<Rightarrow> string \<Rightarrow> recipe \<Rightarrow> store \<Rightarrow> response \<times> store" where
  "remove_recipe e rid recipe st =
     (case (case has_image e recipe of
              None \<Rightarrow> Inr ()
            | Some old \<Rightarrow> destroy e (publicId old)) of
        Inl err \<Rightarrow> (server_error, st)
      | Inr done \<Rightarrow>
          if deleteOne_ok e recipe
          then ((200, Message ''Recipe deleted''), st(rid := None))
          else (server_error, st))"

definition delete_recipe :: "env \<Rightarrow> user \<Rightarrow> string \<Rightarrow> store \<Rightarrow> response \<times> store" where
  "delete_recipe e u rid st =
     (case findById e st rid of
        Inl err \<Rightarrow> (server_error, st)
      | Inr None \<Rightarrow> (not_found, st)
      | Inr (Some recipe) \<Rightarrow>
          (let isAdmin = (email u = ''admin@gmail.com'');
               isOwner = (createdBy recipe = uid u)
           in if \<not> isAdmin \<and> \<not> isOwner then (not_authorized, st)
              else remove_recipe e rid recipe st))"

section \<open>The routes that write\<close>

text \<open>The four routes of the router that change the collection, each with what its
  handler reads of the request.\<close>

datatype operation =
    Like user string
  | Create user request
  | Update user request
  | Delete user string

fun apply_operation :: "env \<Rightarrow> operation \<Rightarrow> store \<Rightarrow> response \<times> store" where
  "apply_operation e (Like u rid) st = like_recipe e u rid st"
| "apply_operation e (Create u req) st = create_recipe e u req st"
| "apply_operation e (Update u req) st = update_recipe e u req st"
| "apply_operation e (Delete u rid) st = delete_recipe e u rid st"

text \<open>Requests served one after the other, each in the environment it meets.\<close>

fun run :: "(env \<times> operation) list \<Rightarrow> store \<Rightarrow> store" where
  "run [] st = st"
| "run ((e, op) # ops) st = run ops (snd (apply_operation e op st))"

text \<open>The invariant of the data model: no recipe of the collection has a liker twice.\<close>

definition likedBy_unique :: "store \<Rightarrow> bool" where
  "likedBy_unique st = (\<forall>rid r. st rid = Some r \<longrightarrow> distinct (likedBy r))"

section \<open>A concrete environment\<close>

text \<open>
  The handlers take their environment as a parameter, and the general theorems below hold
  for every environment. Evaluating a handler on a concrete request needs a concrete one.
  \<open>JSON_parse_model\<close> reads the JSON texts made of arrays, string literals with the
  one-letter escapes, integer literals of at most 15 digits, \<^verbatim>\<open>true\<close>, \<^verbatim>\<open>false\<close>,
  \<^verbatim>\<open>null\<close> and white space, as \<^verbatim>\<open>JSON.parse\<close> does; it rejects every other text
  (\<^verbatim>\<open>JSON.parse\<close> also reads objects, fractions, exponents and \<^verbatim>\<open>\u\<close> escapes).
\<close>

datatype token = TLBrack | TRBrack | TComma | TLit jsval

definition is_digit :: "char \<Rightarrow> bool" where
  "is_digit c = (CHR ''0'' \<le> c \<and> c \<le> CHR ''9'')"

definition unescape :: "char \<Rightarrow> char option" where
  "unescape c =
     (if c = CHR 0x22 then Some (CHR 0x22)
      else if c = CHR 0x5C then Some (CHR 0x5C)
      else if c = CHR ''/'' then Some (CHR ''/'')
      else if c = CHR ''b'' then Some (CHR 0x08)
      else if c = CHR ''f'' then Some (CHR 0x0C)
      else if c = CHR ''n'' then Some (CHR 0x0A)
      else if c = CHR ''r'' then Some (CHR 0x0D)
      else if c = CHR ''t'' then Some (CHR 0x09)
      else None)"

text \<open>The rest of a string literal after its opening quote: the string and what follows
  the closing quote.\<close>

fun read_string :: "string \<Rightarrow> string \<Rightarrow> (string \<times> string) option" where
  "read_string acc [] = None"
| "read_string acc [c] = (if c = CHR 0x22 then Some (rev acc, []) else None)"
| "read_string acc (c # d # cs) =
     (if c = CHR 0x22 then Some (rev acc, d # cs)
      else if c = CHR 0x5C
      then (case unescape d of None \<Rightarrow> None | Some x \<Rightarrow> read_string (x # acc) cs)
      else if of_char c < (32 :: nat) then None
      else read_string (c # acc) (d # cs))"

definition nat_of_digits :: "string \<Rightarrow> nat" where
  "nat_of_digits ds = foldl (\<lambda>n c. 10 * n + (of_char c - 48)) 0 ds"

text \<open>An integer literal at the head of the text: its value and what follows it.\<close>

definition read_int :: "string \<Rightarrow> (int \<times> string) option" where
  "read_int cs =
     (let neg = (cs \<noteq> [] \<and> hd cs = CHR ''-'');
          body = (if neg then tl cs else cs);
          ds = takeWhile is_digit body;
          rest = dropWhile is_digit body
      in if ds = [] \<or> (length ds > 1 \<and> hd ds = CHR ''0'') \<or> length ds > 15 then None
         else if rest \<noteq> [] \<and> hd rest \<in> {CHR ''.'', CHR ''e'', CHR ''E''} then None
         else Some (if neg then - int (nat_of_digits ds) else int (nat_of_digits ds), rest))"

definition is_json_ws :: "char \<Rightarrow> bool" where
  "is_json_ws c = (of_char c \<in> {9, 10, 13, 32 :: nat})"

text \<open>
  The tokens of a text. \<open>skip\<close> counts the characters that the token read last still
  covers: they are passed over.
\<close>

fun tokenize_from :: "nat \<Rightarrow> string \<Rightarrow> token list option" where
  "tokenize_from skip [] = Some []"
| "tokenize_from skip (c # cs) =
     (if skip > 0 then tokenize_from (skip - 1) cs
      else if is_json_ws c then tokenize_from 0 cs
      else if c = CHR ''['' then map_option (Cons TLBrack) (tokenize_from 0 cs)
      else if c = CHR '']'' then map_option (Cons TRBrack) (tokenize_from 0 cs)
      else if c = CHR '','' then map_option (Cons TComma) (tokenize_from 0 cs)
      else if c = CHR 0x22
      then (case read_string [] cs of
              None \<Rightarrow> None
            | Some (s, rest) \<Rightarrow>
                map_option (Cons (TLit (JStr s))) (tokenize_from (length cs - length rest) cs))
      else if c = CHR ''-'' \<or> is_digit c
      then (case read_int (c # cs) of
              None \<Rightarrow> None
            | Some (n, rest) \<Rightarrow>
                map_option (Cons (TLit (JNum n))) (tokenize_from (length cs - length rest) cs))
      else if take 4 (c # cs) = ''null''
      then map_option (Cons (TLit JNull)) (tokenize_from 3 cs)
      else if take 4 (c # cs) = ''true''
      then map_option (Cons (TLit (JBool True))) (tokenize_from 3 cs)
      else if take 5 (c # cs) = ''false''
      then map_option (Cons (TLit (JBool False))) (tokenize_from 4 cs)
      else None)"

text \<open>
  The parser's state: the open arrays, innermost first, each with its elements so far in
  reverse. \<open>NeedVal\<close> expects a value, \<open>Opened\<close> a value or the closing bracket,
  \<open>AfterVal\<close> a comma or the closing bracket.
\<close>

datatype pstate =
    NeedVal "jsval list list"
  | Opened "jsval list list"
  | AfterVal "jsval list list"
  | Done jsval

fun put_value :: "jsval list list \<Rightarrow> jsval \<Rightarrow> pstate" where
  "put_value [] v = Done v"
| "put_value (acc # outer) v = AfterVal ((v # acc) # outer)"

fun pstep :: "pstate \<Rightarrow> token \<Rightarrow> pstate option" where
  "pstep (NeedVal stk) (TLit v) = Some (put_value stk v)"
| "pstep (NeedVal stk) TLBrack = Some (Opened ([] # stk))"
| "pstep (Opened stk) (TLit v) = Some (put_value stk v)"
| "pstep (Opened stk) TLBrack = Some (Opened ([] # stk))"
| "pstep (Opened (acc # outer)) TRBrack = Some (put_value outer (JArr (rev acc)))"
| "pstep (AfterVal stk) TComma = Some (NeedVal stk)"
| "pstep (AfterVal (acc # outer)) TRBrack = Some (put_value outer (JArr (rev acc)))"
| "pstep st t = None"

fun prun :: "pstate \<Rightarrow> token list \<Rightarrow> jsval option" where
  "prun (Done v) [] = Some v"
| "prun st [] = None"
| "prun st (t # ts) = (case pstep st t of None \<Rightarrow> None | Some st' \<Rightarrow> prun st' ts)"

definition JSON_parse_model :: "string \<Rightarrow> jsval option" where
  "JSON_parse_model s = (case tokenize_from 0 s of None \<Rightarrow> None | Some ts \<Rightarrow> prun (NeedVal []) ts)"

text \<open>An ObjectId as a string of 24 hexadecimal digits.\<close>

definition is_hex :: "char \<Rightarrow> bool" where
  "is_hex c = (is_digit c \<or> (CHR ''a'' \<le> c \<and> c \<le> CHR ''f'') \<or> (CHR ''A'' \<le> c \<and> c \<le> CHR ''F''))"

definition isValid_hex24 :: "string \<Rightarrow> bool" where
  "isValid_hex24 s = (length s = 24 \<and> list_all is_hex s)"

text \<open>Cloudinary is configured and every call to Cloudinary and to the database resolves.\<close>

definition env0 :: env where
  "env0 =
     \<lparr>CLOUDINARY_CONFIG_OK = True,
      isValid = isValid_hex24,
      save_ok = (\<lambda>r. True),
      deleteOne_ok = (\<lambda>r. True),
      destroy_ok = (\<lambda>p. True),
      JSON_parse = JSON_parse_model,
      new_id = ''65a000000000000000000009''\<rparr>"

text \<open>Three users and a store holding one recipe of Alice's, liked by Bob.\<close>

definition alice :: user where
  "alice = \<lparr>uid = ''65a000000000000000000001'', email = ''alice@example.com''\<rparr>"

definition bob :: user where
  "bob = \<lparr>uid = ''65a000000000000000000002'', email = ''bob@example.com''\<rparr>"

definition admin :: user where
  "admin = \<lparr>uid = ''65a000000000000000000003'', email = ''admin@gmail.com''\<rparr>"

definition pasta :: recipe where
  "pasta =
     \<lparr>title = JStr ''Pasta'',
      description = JUndefined,
      instructions = JStr ''Boil.'',
      category = JStr ''Dinner'',
      cookingTime = JUndefined,
      ingredients = [JStr ''pasta'', JStr ''salt''],
      image_url = Some ''https://res.cloudinary.com/demo/image/upload/v1/Recipedia-Images/recipe-1.jpg'',
      createdBy = uid alice,
      likedBy = [uid bob]\<rparr>"

definition pasta_id :: objectId where
  "pasta_id = ''65a000000000000000000007''"

definition store0 :: store where
  "store0 = Map.empty(pasta_id \<mapsto> pasta)"

text \<open>A request that renames the recipe.\<close>

definition rename_pasta :: request where
  "rename_pasta =
     \<lparr>params_id = pasta_id, body = [(''title'', JStr ''Pasta al dente'')], req_file = None\<rparr>"

text \<open>The environment in which every call to Cloudinary's \<^verbatim>\<open>destroy\<close> rejects.\<close>

definition env_destroy_fails :: env where
  "env_destroy_fails = env0\<lparr>destroy_ok := (\<lambda>p. False)\<rparr>"

text \<open>An update that clears the image, and one that brings a new image.\<close>

definition clear_image :: request where
  "clear_image =
     \<lparr>params_id = pasta_id, body = [(''clearImage'', JStr ''true'')], req_file = None\<rparr>"

definition new_image :: request where
  "new_image =
     \<lparr>params_id = pasta_id, body = [],
      req_file = Some \<lparr>path = Some ''https://res.cloudinary.com/demo/image/upload/v1/Recipedia-Images/recipe-2.jpg'',
                       secure_url = None\<rparr>\<rparr>"

text \<open>Updates whose \<^verbatim>\<open>ingredients\<close> field is the empty string, and an array of blank strings.\<close>

definition empty_ingredients :: request where
  "empty_ingredients =
     \<lparr>params_id = pasta_id, body = [(''ingredients'', JStr [])], req_file = None\<rparr>"

definition blank_ingredients :: request where
  "blank_ingredients =
     \<lparr>params_id = pasta_id, body = [(''ingredients'', JArr [JStr [], JStr ''  ''])],
      req_file = None\<rparr>"

text \<open>Bodies that carry the ingredients a, b as a JSON text and as an array.\<close>

definition json_ab :: string where
  \<open>json_ab = ''["a","b"]''\<close>

definition json_body :: jsobject where
  "json_body = [(''ingredients'', JStr json_ab)]"

definition native_body :: jsobject where
  "native_body = [(''ingredients'', JArr [JStr ''a'', JStr ''b''])]"

text \<open>Eleven ingredients i0, ..., i10 under the keys \<^verbatim>\<open>ingredients[0]\<close>, ...,
  \<^verbatim>\<open>ingredients[10]\<close>, and the same eleven as an array.\<close>

definition eleven_indexed :: jsobject where
  "eleven_indexed =
     [(''ingredients[0]'', JStr ''i0''), (''ingredients[1]'', JStr ''i1''),
      (''ingredients[2]'', JStr ''i2''), (''ingredients[3]'', JStr ''i3''),
      (''ingredients[4]'', JStr ''i4''), (''ingredients[5]'', JStr ''i5''),
      (''ingredients[6]'', JStr ''i6''), (''ingredients[7]'', JStr ''i7''),
      (''ingredients[8]'', JStr ''i8''), (''ingredients[9]'', JStr ''i9''),
      (''ingredients[10]'', JStr ''i10'')]"

definition eleven_native :: jsobject where
  "eleven_native =
     [(''ingredients'',
       JArr [JStr ''i0'', JStr ''i1'', JStr ''i2'', JStr ''i3'', JStr ''i4'', JStr ''i5'',
             JStr ''i6'', JStr ''i7'', JStr ''i8'', JStr ''i9'', JStr ''i10''])]"

text \<open>An array of one ingredient whose text is a JSON number.\<close>

definition single_numeric :: jsobject where
  "single_numeric = [(''ingredients'', JArr [JStr ''5''])]"

text \<open>A create request whose only ingredient is the empty string, and one with no title.\<close>

definition blank_create :: request where
  "blank_create =
     \<lparr>params_id = [],
      body = [(''title'', JStr ''Pasta''), (''instructions'', JStr ''Boil.''),
              (''category'', JStr ''Dinner''), (''ingredients'', JArr [JStr []])],
      req_file = None\<rparr>"

definition untitled_create :: request where
  "untitled_create =
     \<lparr>params_id = [],
      body = [(''instructions'', JStr ''Boil.''), (''category'', JStr ''Dinner''),
              (''ingredients'', JArr [JStr ''pasta''])],
      req_file = None\<rparr>"

section \<open>Facts about the like toggle\<close>

lemma split_on_nonempty: "split_on c s \<noteq> []"
  by (induction s) (auto split: list.splits)


lemma findIndex_bounds: "- 1 \<le> findIndex p xs \<and> findIndex p xs < int (length xs)"
  by (induction xs) (auto simp: Let_def)

lemma findIndex_none: "findIndex p xs = - 1 \<longleftrightarrow> (\<forall>x \<in> set xs. \<not> p x)"
proof (induction xs)
  case Nil
  then show ?case by simp
next
  case (Cons x xs)
  from findIndex_bounds [of p xs] have "findIndex p xs + 1 \<noteq> - 1" by arith
  with Cons show ?case by (auto simp: Let_def)
qed

lemma findIndex_nonneg: "findIndex p xs \<noteq> - 1 \<Longrightarrow> 0 \<le> findIndex p xs"
  using findIndex_bounds [of p xs] by arith

lemma splice1_findIndex:
  "u \<in> set xs \<Longrightarrow> splice1 (findIndex (\<lambda>i. i = u) xs) xs = remove1 u xs"
proof (induction xs)
  case Nil
  then show ?case by simp
next
  case (Cons x xs)
  show ?case
  proof (cases "x = u")
    case True
    then show ?thesis by (simp add: splice1_def)
  next
    case False
    with Cons.prems have mem: "u \<in> set xs" by simp
    then have ne: "findIndex (\<lambda>i. i = u) xs \<noteq> - 1"
      by (simp add: findIndex_none)
    from findIndex_nonneg [OF ne] findIndex_bounds [of "\<lambda>i. i = u" xs]
    have b: "0 \<le> findIndex (\<lambda>i. i = u) xs" "findIndex (\<lambda>i. i = u) xs < int (length xs)"
      by simp_all
    from Cons.IH [OF mem] b have "take (nat (findIndex (\<lambda>i. i = u) xs)) xs
        @ drop (nat (findIndex (\<lambda>i. i = u) xs) + 1) xs = remove1 u xs"
      by (simp add: splice1_def Let_def min_def)
    with False ne b show ?thesis
      by (simp add: splice1_def Let_def min_def nat_add_distrib)
  qed
qed

lemma toggle_likedBy_absent: "u \<notin> set xs \<Longrightarrow> toggle_likedBy u xs = xs @ [u]"
  by (simp add: toggle_likedBy_def findIndex_none)

lemma toggle_likedBy_present: "u \<in> set xs \<Longrightarrow> toggle_likedBy u xs = remove1 u xs"
proof -
  assume m: "u \<in> set xs"
  then have "findIndex (\<lambda>i. i = u) xs \<noteq> - 1" by (simp add: findIndex_none)
  with m show ?thesis by (simp add: toggle_likedBy_def splice1_findIndex)
qed

lemma toggle_likedBy_distinct: "distinct xs \<Longrightarrow> distinct (toggle_likedBy u xs)"
  by (cases "u \<in> set xs") (simp_all add: toggle_likedBy_absent toggle_likedBy_present)

lemma toggle_likedBy_set:
  "distinct xs \<Longrightarrow>
   set (toggle_likedBy u xs) = (if u \<in> set xs then set xs - {u} else insert u (set xs))"
  by (cases "u \<in> set xs") (simp_all add: toggle_likedBy_absent toggle_likedBy_present)

lemma toggle_likedBy_twice_absent: "u \<notin> set xs \<Longrightarrow> toggle_likedBy u (toggle_likedBy u xs) = xs"
  by (simp add: toggle_likedBy_absent toggle_likedBy_present remove1_append)

lemma toggle_likedBy_twice_present:
  "u \<in> set xs \<Longrightarrow> distinct xs \<Longrightarrow> toggle_likedBy u (toggle_likedBy u xs) = remove1 u xs @ [u]"
  by (simp add: toggle_likedBy_absent toggle_likedBy_present)

lemma toggle_likedBy_twice_set:
  "distinct xs \<Longrightarrow> set (toggle_likedBy u (toggle_likedBy u xs)) = set xs"
  by (cases "u \<in> set xs")
     (auto simp: toggle_likedBy_twice_absent toggle_likedBy_twice_present)

lemma toggle_likedBy_twice_length:
  "distinct xs \<Longrightarrow> length (toggle_likedBy u (toggle_likedBy u xs)) = length xs"
  by (cases "u \<in> set xs")
     (auto simp: toggle_likedBy_twice_absent toggle_likedBy_twice_present length_remove1
           dest: length_pos_if_in_set)

lemma like_recipe_found:
  "findById e st rid = Inr (Some r) \<Longrightarrow>
   like_recipe e u rid st =
     (if save_ok e (r\<lparr>likedBy := toggle_likedBy (uid u) (likedBy r)\<rparr>)
      then ((200, LikeResult (uid u \<notin> set (likedBy r))
                    (length (toggle_likedBy (uid u) (likedBy r)))),
            st(rid \<mapsto> r\<lparr>likedBy := toggle_likedBy (uid u) (likedBy r)\<rparr>))
      else (server_error, st))"
  by (auto simp: like_recipe_def Let_def findIndex_none)

lemma findById_upd:
  "findById e st rid = Inr x \<Longrightarrow> findById e (st(rid \<mapsto> r')) rid = Inr (Some r')"
  by (auto simp: findById_def split: if_splits)

lemma findById_store0: "findById env0 store0 pasta_id = Inr (Some pasta)"
  by (simp add: findById_def env0_def store0_def pasta_id_def isValid_hex24_def
      is_hex_def is_digit_def)

lemma toggle_bob_pasta: "toggle_likedBy (uid bob) (likedBy pasta) = []"
  by (simp add: toggle_likedBy_def splice1_def pasta_def bob_def)

lemma toggle_alice_pasta: "toggle_likedBy (uid alice) (likedBy pasta) = [uid bob, uid alice]"
  by (simp add: toggle_likedBy_def splice1_def pasta_def bob_def alice_def)

text \<open>
  C2. A like toggle on a recipe that exists, whose write the store accepts: a caller
  among the likers is taken out and the response says \<open>likedByUser\<close> false, a caller not
  among them is put in and the response says true; the \<open>likes\<close> of the response is the
  number of likers of the document written. The likers hold no id twice, as the data
  model has it.
\<close>

theorem like_toggle_response:
  assumes found: "findById e st rid = Inr (Some r)"
    and saved: "save_ok e (r\<lparr>likedBy := toggle_likedBy (uid u) (likedBy r)\<rparr>)"
    and inv: "distinct (likedBy r)"
  shows "\<exists>r'. like_recipe e u rid st =
           ((200, LikeResult (uid u \<notin> set (likedBy r)) (card (set (likedBy r')))),
            st(rid \<mapsto> r'))
         \<and> r' = r\<lparr>likedBy := likedBy r'\<rparr>
         \<and> set (likedBy r') =
             (if uid u \<in> set (likedBy r) then set (likedBy r) - {uid u}
              else insert (uid u) (set (likedBy r)))
         \<and> (uid u \<in> set (likedBy r') \<longleftrightarrow> uid u \<notin> set (likedBy r))"
proof -
  let ?ys = "toggle_likedBy (uid u) (likedBy r)"
  let ?r' = "r\<lparr>likedBy := ?ys\<rparr>"
  have d: "distinct ?ys" using inv by (rule toggle_likedBy_distinct)
  have s: "set ?ys = (if uid u \<in> set (likedBy r) then set (likedBy r) - {uid u}
              else insert (uid u) (set (likedBy r)))"
    using inv by (rule toggle_likedBy_set)
  have c: "card (set ?ys) = length ?ys" using d by (rule distinct_card)
  have "like_recipe e u rid st =
      ((200, LikeResult (uid u \<notin> set (likedBy r)) (card (set (likedBy ?r')))), st(rid \<mapsto> ?r'))"
    using saved c by (simp add: like_recipe_found [OF found])
  moreover have "?r' = r\<lparr>likedBy := likedBy ?r'\<rparr>" by simp
  moreover have "set (likedBy ?r') = (if uid u \<in> set (likedBy r) then set (likedBy r) - {uid u}
              else insert (uid u) (set (likedBy r)))" using s by simp
  moreover have "uid u \<in> set (likedBy ?r') \<longleftrightarrow> uid u \<notin> set (likedBy r)"
    using s by simp
  ultimately show ?thesis by blast
qed

theorem like_toggle_response_witness:
  "findById env0 store0 pasta_id = Inr (Some pasta)
   \<and> save_ok env0 (pasta\<lparr>likedBy := toggle_likedBy (uid bob) (likedBy pasta)\<rparr>)
   \<and> distinct (likedBy pasta)
   \<and> (\<exists>r'. like_recipe env0 bob pasta_id store0 =
             ((200, LikeResult False (card (set (likedBy r')))), store0(pasta_id \<mapsto> r'))
           \<and> likedBy r' = [])"
proof -
  have f: "findById env0 store0 pasta_id = Inr (Some pasta)" by (rule findById_store0)
  have s: "save_ok env0 (pasta\<lparr>likedBy := toggle_likedBy (uid bob) (likedBy pasta)\<rparr>)"
    by (simp add: env0_def)
  have d: "distinct (likedBy pasta)" by (simp add: pasta_def)
  from like_toggle_response [OF f s d] obtain r' where
    r: "like_recipe env0 bob pasta_id store0 =
           ((200, LikeResult (uid bob \<notin> set (likedBy pasta)) (card (set (likedBy r')))),
            store0(pasta_id \<mapsto> r'))"
    and l: "set (likedBy r') =
             (if uid bob \<in> set (likedBy pasta) then set (likedBy pasta) - {uid bob}
              else insert (uid bob) (set (likedBy pasta)))"
    by blast
  have m: "uid bob \<in> set (likedBy pasta)" by (simp add: pasta_def)
  from l m have "likedBy r' = []" by (simp add: pasta_def)
  with r m f s d show ?thesis by auto
qed

text \<open>
  C3. Two like toggles in a row by one user, both written: the likers are the same set
  of the same size again, nothing else of the recipe has changed, and the second response
  reports the membership and the count that the recipe had before the first toggle (those
  that GET /:id showed then and shows again).
\<close>

theorem like_toggle_twice:
  assumes found: "findById e st rid = Inr (Some r)"
    and inv: "distinct (likedBy r)"
    and saved1: "save_ok e (r\<lparr>likedBy := toggle_likedBy (uid u) (likedBy r)\<rparr>)"
    and saved2: "save_ok e
        (r\<lparr>likedBy := toggle_likedBy (uid u) (toggle_likedBy (uid u) (likedBy r))\<rparr>)"
  shows "\<exists>r2. like_recipe e u rid (snd (like_recipe e u rid st)) =
            ((200, LikeResult (uid u \<in> set (likedBy r)) (length (likedBy r))), st(rid \<mapsto> r2))
         \<and> r2 = r\<lparr>likedBy := likedBy r2\<rparr>
         \<and> set (likedBy r2) = set (likedBy r)
         \<and> distinct (likedBy r2)
         \<and> (uid u \<notin> set (likedBy r) \<longrightarrow> r2 = r)
         \<and> get_recipe e (Some u) rid (st(rid \<mapsto> r2)) =
             (200, RecipeView r2 (uid u \<in> set (likedBy r)) (length (likedBy r)))
         \<and> get_recipe e (Some u) rid st =
             (200, RecipeView r (uid u \<in> set (likedBy r)) (length (likedBy r)))"
proof -
  let ?ys = "toggle_likedBy (uid u) (likedBy r)"
  let ?zs = "toggle_likedBy (uid u) ?ys"
  let ?r1 = "r\<lparr>likedBy := ?ys\<rparr>"
  let ?r2 = "r\<lparr>likedBy := ?zs\<rparr>"
  have v: "isValid e rid" using found by (auto simp: findById_def split: if_splits)
  have first: "snd (like_recipe e u rid st) = st(rid \<mapsto> ?r1)"
    using saved1 by (simp add: like_recipe_found [OF found])
  have found1: "findById e (st(rid \<mapsto> ?r1)) rid = Inr (Some ?r1)"
    using found by (rule findById_upd)
  have mem1: "uid u \<notin> set ?ys \<longleftrightarrow> uid u \<in> set (likedBy r)"
    using toggle_likedBy_set [OF inv, of "uid u"] by auto
  have len: "length ?zs = length (likedBy r)"
    using inv by (rule toggle_likedBy_twice_length)
  have sets: "set ?zs = set (likedBy r)"
    using inv by (rule toggle_likedBy_twice_set)
  have second: "like_recipe e u rid (snd (like_recipe e u rid st)) =
      ((200, LikeResult (uid u \<in> set (likedBy r)) (length (likedBy r))), st(rid \<mapsto> ?r2))"
    using saved2 mem1 len by (simp add: first like_recipe_found [OF found1])
  have d2: "distinct ?zs"
    using inv by (intro toggle_likedBy_distinct)
  have same: "uid u \<notin> set (likedBy r) \<longrightarrow> ?r2 = r"
    by (simp add: toggle_likedBy_twice_absent)
  have g2: "get_recipe e (Some u) rid (st(rid \<mapsto> ?r2)) =
      (200, RecipeView ?r2 (uid u \<in> set (likedBy r)) (length (likedBy r)))"
    using v sets len by (simp add: get_recipe_def findById_def list_ex_iff)
  have g0: "get_recipe e (Some u) rid st =
      (200, RecipeView r (uid u \<in> set (likedBy r)) (length (likedBy r)))"
    using v found by (auto simp: get_recipe_def list_ex_iff)
  have "?r2 = r\<lparr>likedBy := likedBy ?r2\<rparr>" by simp
  with second sets d2 same g2 g0 show ?thesis
    by (intro exI [of _ ?r2]) simp
qed

theorem like_toggle_twice_witness:
  "findById env0 store0 pasta_id = Inr (Some pasta)
   \<and> distinct (likedBy pasta)
   \<and> (\<exists>r2. like_recipe env0 bob pasta_id (snd (like_recipe env0 bob pasta_id store0)) =
             ((200, LikeResult True 1), store0(pasta_id \<mapsto> r2))
           \<and> set (likedBy r2) = {uid bob})
   \<and> snd (like_recipe env0 alice pasta_id (snd (like_recipe env0 alice pasta_id store0)))
       pasta_id = Some pasta"
proof -
  have f: "findById env0 store0 pasta_id = Inr (Some pasta)" by (rule findById_store0)
  have d: "distinct (likedBy pasta)" by (simp add: pasta_def)
  have s: "\<And>r. save_ok env0 r" by (simp add: env0_def)
  from like_toggle_twice [where u = bob, OF f d s s] obtain r2 where
    "like_recipe env0 bob pasta_id (snd (like_recipe env0 bob pasta_id store0)) =
       ((200, LikeResult (uid bob \<in> set (likedBy pasta)) (length (likedBy pasta))),
        store0(pasta_id \<mapsto> r2))"
    and "set (likedBy r2) = set (likedBy pasta)"
    by blast
  then have b: "\<exists>r2. like_recipe env0 bob pasta_id (snd (like_recipe env0 bob pasta_id store0)) =
             ((200, LikeResult True 1), store0(pasta_id \<mapsto> r2))
           \<and> set (likedBy r2) = {uid bob}"
    by (auto simp: pasta_def)
  from like_toggle_twice [where u = alice, OF f d s s] obtain r3 where
    "like_recipe env0 alice pasta_id (snd (like_recipe env0 alice pasta_id store0)) =
       ((200, LikeResult (uid alice \<in> set (likedBy pasta)) (length (likedBy pasta))),
        store0(pasta_id \<mapsto> r3))"
    and "uid alice \<notin> set (likedBy pasta) \<longrightarrow> r3 = pasta"
    by blast
  moreover have "uid alice \<notin> set (likedBy pasta)" by (simp add: pasta_def alice_def bob_def)
  ultimately have a:
    "snd (like_recipe env0 alice pasta_id (snd (like_recipe env0 alice pasta_id store0)))
       pasta_id = Some pasta"
    by simp
  from f d b a show ?thesis by blast
qed

lemma update_image_likedBy: "update_image e req r = Inr r' \<Longrightarrow> likedBy r' = likedBy r"
  by (auto simp: update_image_def split: option.splits if_splits sum.splits)

lemma update_fields_likedBy: "likedBy (update_fields b r) = likedBy r"
  by (simp add: update_fields_def Let_def)

lemma update_ingredients_likedBy:
  "update_ingredients xs r = Inr r' \<Longrightarrow> likedBy r' = likedBy r"
  by (auto simp: update_ingredients_def split: if_splits sum.splits)

lemma updated_recipe_likedBy: "updated_recipe e req r = Inr r' \<Longrightarrow> likedBy r' = likedBy r"
  by (auto simp: updated_recipe_def Let_def update_fields_likedBy
           split: sum.splits dest!: update_image_likedBy update_ingredients_likedBy)

lemma likedBy_unique_upd:
  "likedBy_unique st \<Longrightarrow> distinct (likedBy r) \<Longrightarrow> likedBy_unique (st(rid \<mapsto> r))"
  by (simp add: likedBy_unique_def)

lemma likedBy_unique_del: "likedBy_unique st \<Longrightarrow> likedBy_unique (st(rid := None))"
  by (simp add: likedBy_unique_def)

lemma findById_Some: "findById e st rid = Inr (Some r) \<Longrightarrow> st rid = Some r"
  by (auto simp: findById_def split: if_splits)

lemma like_recipe_unique:
  assumes "likedBy_unique st"
  shows "likedBy_unique (snd (like_recipe e u rid st))"
proof (cases "findById e st rid")
  case (Inl err)
  with assms show ?thesis by (simp add: like_recipe_def)
next
  case (Inr found)
  show ?thesis
  proof (cases found)
    case None
    with Inr assms show ?thesis by (simp add: like_recipe_def)
  next
    case (Some r)
    with Inr have "st rid = Some r" by (simp add: findById_Some)
    with assms have "distinct (likedBy r)" by (auto simp: likedBy_unique_def)
    then have "distinct (toggle_likedBy (uid u) (likedBy r))"
      by (rule toggle_likedBy_distinct)
    with assms Inr Some show ?thesis
      by (simp add: like_recipe_found likedBy_unique_upd)
  qed
qed

lemma create_recipe_unique:
  "likedBy_unique st \<Longrightarrow> likedBy_unique (snd (create_recipe e u req st))"
  by (simp add: create_recipe_def Let_def likedBy_unique_upd new_Recipe_def)

lemma save_update_unique:
  assumes "likedBy_unique st" and "distinct (likedBy r)"
  shows "likedBy_unique (snd (save_update e req r st))"
  using assms
  by (auto simp: save_update_def likedBy_unique_upd split: sum.splits
           dest!: updated_recipe_likedBy)

lemma update_recipe_unique:
  assumes "likedBy_unique st"
  shows "likedBy_unique (snd (update_recipe e u req st))"
proof (cases "findById e st (params_id req)")
  case (Inl err)
  with assms show ?thesis by (simp add: update_recipe_def)
next
  case (Inr found)
  show ?thesis
  proof (cases found)
    case None
    with Inr assms show ?thesis by (simp add: update_recipe_def)
  next
    case (Some r)
    with Inr have "st (params_id req) = Some r" by (simp add: findById_Some)
    with assms have "distinct (likedBy r)" by (auto simp: likedBy_unique_def)
    with assms Inr Some show ?thesis
      by (simp add: update_recipe_def Let_def save_update_unique)
  qed
qed

lemma delete_recipe_unique:
  "likedBy_unique st \<Longrightarrow> likedBy_unique (snd (delete_recipe e u rid st))"
  by (auto simp: delete_recipe_def remove_recipe_def Let_def likedBy_unique_del
           split: sum.splits option.splits)

lemma apply_operation_unique:
  "likedBy_unique st \<Longrightarrow> likedBy_unique (snd (apply_operation e op st))"
  by (cases op)
     (simp_all add: like_recipe_unique create_recipe_unique update_recipe_unique
        delete_recipe_unique)

lemma distinct_count_list: "distinct xs \<Longrightarrow> count_list xs x \<le> 1"
  by (induction xs) (auto simp: count_list_0_iff)

lemma run_unique: "likedBy_unique st \<Longrightarrow> likedBy_unique (run ops st)"
  by (induction ops arbitrary: st) (auto simp: apply_operation_unique)

text \<open>
  C4. No liker twice is an invariant of the collection: each of the four writing routes
  keeps it, so does every sequence of requests, and a like toggle leaves the likers of
  its recipe without a repetition, however often one user repeats it.
\<close>

theorem likedBy_unique_invariant:
  assumes "likedBy_unique st"
  shows "likedBy_unique (snd (apply_operation e op st))
         \<and> likedBy_unique (run ops st)
         \<and> (\<forall>r. run (replicate n (e, Like u rid)) st rid = Some r \<longrightarrow>
               distinct (likedBy r) \<and> count_list (likedBy r) (uid u) \<le> 1)"
proof -
  have "likedBy_unique (run (replicate n (e, Like u rid)) st)"
    using assms by (rule run_unique)
  then have "\<forall>r. run (replicate n (e, Like u rid)) st rid = Some r \<longrightarrow>
               distinct (likedBy r) \<and> count_list (likedBy r) (uid u) \<le> 1"
    using distinct_count_list by (fastforce simp: likedBy_unique_def)
  with assms show ?thesis
    by (simp add: apply_operation_unique run_unique)
qed

lemma store0_unique: "likedBy_unique store0"
  by (simp add: likedBy_unique_def store0_def pasta_def)

lemma like_alice_store0:
  "like_recipe env0 alice pasta_id store0 =
     ((200, LikeResult True 2), store0(pasta_id \<mapsto> pasta\<lparr>likedBy := [uid bob, uid alice]\<rparr>))"
proof -
  have s: "\<And>r. save_ok env0 r" by (simp add: env0_def)
  have m: "uid alice \<notin> set (likedBy pasta)" by (simp add: pasta_def alice_def bob_def)
  show ?thesis
    using s m by (simp add: like_recipe_found [OF findById_store0] toggle_alice_pasta)
qed

theorem likedBy_unique_invariant_witness:
  "likedBy_unique store0
   \<and> snd (apply_operation env0 (Like alice pasta_id) store0) pasta_id
       = Some (pasta\<lparr>likedBy := [uid bob, uid alice]\<rparr>)
   \<and> likedBy_unique (snd (apply_operation env0 (Like alice pasta_id) store0))
   \<and> likedBy_unique (run (replicate 3 (env0, Like alice pasta_id)) store0)"
  using likedBy_unique_invariant [OF store0_unique, where e = env0 and op = "Like alice pasta_id"
      and ops = "replicate 3 (env0, Like alice pasta_id)" and n = 0 and u = alice
      and rid = pasta_id]
  by (simp add: store0_unique like_alice_store0)

lemma update_recipe_found:
  "findById e st (params_id req) = Inr (Some r) \<Longrightarrow>
   update_recipe e u req st =
     (if email u \<noteq> ''admin@gmail.com'' \<and> createdBy r \<noteq> uid u then (not_authorized, st)
      else save_update e req r st)"
  by (simp add: update_recipe_def Let_def)

lemma delete_recipe_found:
  "findById e st rid = Inr (Some r) \<Longrightarrow>
   delete_recipe e u rid st =
     (if email u \<noteq> ''admin@gmail.com'' \<and> createdBy r \<noteq> uid u then (not_authorized, st)
      else remove_recipe e rid r st)"
  by (simp add: delete_recipe_def Let_def)

lemma save_update_status: "fst (fst (save_update e req r st)) \<in> {200, 500}"
  by (simp add: save_update_def server_error_def split: sum.splits)

lemma remove_recipe_status: "fst (fst (remove_recipe e rid r st)) \<in> {200, 500}"
  by (simp add: remove_recipe_def server_error_def split: sum.splits option.splits)

text \<open>
  C1. Update and delete of a recipe that exists. A response 200 needs a caller who is the
  recipe's creator or has the admin's email; every other caller gets 401 and the
  collection stays as it was; the admin gets what the creator would get whoever created
  the recipe: never 401, and 200 with the write done whenever the handler's calls to
  Cloudinary and to the database resolve.
\<close>

theorem update_delete_authorization:
  assumes found: "findById e st (params_id req) = Inr (Some r)"
  shows "(fst (fst (update_recipe e u req st)) = 200 \<longrightarrow>
            uid u = createdBy r \<or> email u = ''admin@gmail.com'')
       \<and> (fst (fst (delete_recipe e u (params_id req) st)) = 200 \<longrightarrow>
            uid u = createdBy r \<or> email u = ''admin@gmail.com'')
       \<and> (uid u \<noteq> createdBy r \<and> email u \<noteq> ''admin@gmail.com'' \<longrightarrow>
            update_recipe e u req st = ((401, Message ''Not authorized''), st)
            \<and> delete_recipe e u (params_id req) st = ((401, Message ''Not authorized''), st))
       \<and> (email u = ''admin@gmail.com'' \<longrightarrow>
            update_recipe e u req st = update_recipe e (u\<lparr>uid := createdBy r\<rparr>) req st
            \<and> delete_recipe e u (params_id req) st =
                delete_recipe e (u\<lparr>uid := createdBy r\<rparr>) (params_id req) st
            \<and> fst (fst (update_recipe e u req st)) \<noteq> 401
            \<and> fst (fst (delete_recipe e u (params_id req) st)) \<noteq> 401
            \<and> (\<forall>r'. updated_recipe e req r = Inr r' \<and> save_ok e r' \<longrightarrow>
                  update_recipe e u req st =
                    ((200, Updated ''Recipe updated successfully'' r'),
                     st(params_id req \<mapsto> r')))
            \<and> ((\<forall>url. has_image e r = Some url \<longrightarrow> destroy_ok e (publicId url))
                 \<and> deleteOne_ok e r \<longrightarrow>
                  delete_recipe e u (params_id req) st =
                    ((200, Message ''Recipe deleted''), st(params_id req := None))))"
proof -
  note upd = update_recipe_found [OF found]
  note del = delete_recipe_found [OF found]
  have a: "fst (fst (update_recipe e u req st)) = 200 \<longrightarrow>
            uid u = createdBy r \<or> email u = ''admin@gmail.com''"
    by (auto simp: upd not_authorized_def)
  have b: "fst (fst (delete_recipe e u (params_id req) st)) = 200 \<longrightarrow>
            uid u = createdBy r \<or> email u = ''admin@gmail.com''"
    by (auto simp: del not_authorized_def)
  have c: "uid u \<noteq> createdBy r \<and> email u \<noteq> ''admin@gmail.com'' \<longrightarrow>
            update_recipe e u req st = ((401, Message ''Not authorized''), st)
            \<and> delete_recipe e u (params_id req) st = ((401, Message ''Not authorized''), st)"
    by (auto simp: upd del not_authorized_def)
  have d: "email u = ''admin@gmail.com'' \<Longrightarrow>
            update_recipe e u req st = update_recipe e (u\<lparr>uid := createdBy r\<rparr>) req st
            \<and> delete_recipe e u (params_id req) st =
                delete_recipe e (u\<lparr>uid := createdBy r\<rparr>) (params_id req) st"
    by (simp add: upd del)
  have s: "email u = ''admin@gmail.com'' \<Longrightarrow>
            fst (fst (update_recipe e u req st)) \<noteq> 401
            \<and> fst (fst (delete_recipe e u (params_id req) st)) \<noteq> 401"
    using save_update_status [of e req r st] remove_recipe_status [of e "params_id req" r st]
    by (auto simp: upd del)
  have f: "email u = ''admin@gmail.com'' \<Longrightarrow>
       \<forall>r'. updated_recipe e req r = Inr r' \<and> save_ok e r' \<longrightarrow>
                  update_recipe e u req st =
                    ((200, Updated ''Recipe updated successfully'' r'),
                     st(params_id req \<mapsto> r'))"
    by (simp add: upd save_update_def)
  have g: "email u = ''admin@gmail.com'' \<Longrightarrow>
       (\<forall>url. has_image e r = Some url \<longrightarrow> destroy_ok e (publicId url))
                 \<and> deleteOne_ok e r \<longrightarrow>
                  delete_recipe e u (params_id req) st =
                    ((200, Message ''Recipe deleted''), st(params_id req := None))"
    by (auto simp: del remove_recipe_def destroy_def split: option.splits)
  from a b c d s f g show ?thesis by blast
qed

lemma updated_rename_pasta:
  "updated_recipe env0 rename_pasta pasta = Inr (pasta\<lparr>title := JStr ''Pasta al dente''\<rparr>)"
  by (simp add: updated_recipe_def rename_pasta_def update_image_def get_field_def
      update_ingredientsArray_def indexed_ingredients_def Object_keys_def startsWith_def
      update_fields_def update_ingredients_def)

theorem update_delete_authorization_witness:
  "findById env0 store0 (params_id rename_pasta) = Inr (Some pasta)
   \<and> update_recipe env0 bob rename_pasta store0 = ((401, Message ''Not authorized''), store0)
   \<and> delete_recipe env0 bob pasta_id store0 = ((401, Message ''Not authorized''), store0)
   \<and> update_recipe env0 admin rename_pasta store0 =
       ((200, Updated ''Recipe updated successfully'' (pasta\<lparr>title := JStr ''Pasta al dente''\<rparr>)),
        store0(pasta_id \<mapsto> pasta\<lparr>title := JStr ''Pasta al dente''\<rparr>))
   \<and> delete_recipe env0 admin pasta_id store0 =
       ((200, Message ''Recipe deleted''), store0(pasta_id := None))"
proof -
  have p: "params_id rename_pasta = pasta_id" by (simp add: rename_pasta_def)
  have f: "findById env0 store0 (params_id rename_pasta) = Inr (Some pasta)"
    by (simp add: p findById_store0)
  have ok: "\<And>x. save_ok env0 x" "\<And>x. destroy_ok env0 x" "\<And>x. deleteOne_ok env0 x"
    by (simp_all add: env0_def)
  have b: "uid bob \<noteq> createdBy pasta \<and> email bob \<noteq> ''admin@gmail.com''"
    by (simp add: bob_def pasta_def alice_def)
  have a: "email admin = ''admin@gmail.com''" by (simp add: admin_def)
  from update_delete_authorization [OF f, of bob] b
  have "update_recipe env0 bob rename_pasta store0 = ((401, Message ''Not authorized''), store0)
    \<and> delete_recipe env0 bob pasta_id store0 = ((401, Message ''Not authorized''), store0)"
    by (simp add: p)
  moreover from update_delete_authorization [OF f, of admin] a
  have u: "\<forall>r'. updated_recipe env0 rename_pasta pasta = Inr r' \<and> save_ok env0 r' \<longrightarrow>
             update_recipe env0 admin rename_pasta store0 =
               ((200, Updated ''Recipe updated successfully'' r'),
                store0(params_id rename_pasta \<mapsto> r'))"
    and d: "(\<forall>url. has_image env0 pasta = Some url \<longrightarrow> destroy_ok env0 (publicId url))
             \<and> deleteOne_ok env0 pasta \<longrightarrow>
             delete_recipe env0 admin (params_id rename_pasta) store0 =
               ((200, Message ''Recipe deleted''), store0(params_id rename_pasta := None))"
    by blast+
  from u ok updated_rename_pasta d
  have "update_recipe env0 admin rename_pasta store0 =
       ((200, Updated ''Recipe updated successfully'' (pasta\<lparr>title := JStr ''Pasta al dente''\<rparr>)),
        store0(pasta_id \<mapsto> pasta\<lparr>title := JStr ''Pasta al dente''\<rparr>))
    \<and> delete_recipe env0 admin pasta_id store0 =
       ((200, Message ''Recipe deleted''), store0(pasta_id := None))"
    by (simp add: p)
  ultimately show ?thesis using f by blast
qed

lemma like_recipe_status: "fst (fst (like_recipe e u rid st)) \<in> {200, 404, 500}"
  by (simp add: like_recipe_def Let_def server_error_def not_found_def
      split: sum.splits option.splits)

lemma update_recipe_status: "fst (fst (update_recipe e u req st)) \<in> {200, 401, 404, 500}"
  using save_update_status [of e req _ st]
  by (auto simp: update_recipe_def Let_def server_error_def not_found_def not_authorized_def
      split: sum.splits option.splits)

lemma delete_recipe_status: "fst (fst (delete_recipe e u rid st)) \<in> {200, 401, 404, 500}"
  using remove_recipe_status [of e rid _ st]
  by (auto simp: delete_recipe_def Let_def server_error_def not_found_def not_authorized_def
      split: sum.splits option.splits)

text \<open>
  C10. An id that \<^verbatim>\<open>ObjectId.isValid\<close> refuses: GET /:id answers 400 before any lookup;
  the like, update and delete handlers go to the lookup, which throws, and answer 500
  with the collection as it was. None of the three ever answers 400.
\<close>

theorem malformed_id_status:
  assumes bad: "\<not> isValid e rid" and "params_id req = rid"
  shows "get_recipe e viewer rid st = (400, Message ''Invalid ID'')
       \<and> findById e st rid = Inl CastError
       \<and> like_recipe e u rid st = ((500, Message ''Server error''), st)
       \<and> update_recipe e u req st = ((500, Message ''Server error''), st)
       \<and> delete_recipe e u rid st = ((500, Message ''Server error''), st)
       \<and> fst (fst (like_recipe e' u' rid' st')) \<noteq> 400
       \<and> fst (fst (update_recipe e' u' req' st')) \<noteq> 400
       \<and> fst (fst (delete_recipe e' u' rid' st')) \<noteq> 400"
proof -
  have f: "findById e st rid = Inl CastError" using bad by (simp add: findById_def)
  have "fst (fst (like_recipe e' u' rid' st')) \<noteq> 400"
    using like_recipe_status [of e' u' rid' st'] by auto
  moreover have "fst (fst (update_recipe e' u' req' st')) \<noteq> 400"
    using update_recipe_status [of e' u' req' st'] by auto
  moreover have "fst (fst (delete_recipe e' u' rid' st')) \<noteq> 400"
    using delete_recipe_status [of e' u' rid' st'] by auto
  ultimately show ?thesis
    using bad assms(2) f
    by (simp add: get_recipe_def like_recipe_def update_recipe_def delete_recipe_def
        server_error_def)
qed

theorem malformed_id_status_witness:
  "\<not> isValid env0 ''not-an-id''
   \<and> get_recipe env0 (Some bob) ''not-an-id'' store0 = (400, Message ''Invalid ID'')
   \<and> like_recipe env0 bob ''not-an-id'' store0 = ((500, Message ''Server error''), store0)
   \<and> update_recipe env0 alice (rename_pasta\<lparr>params_id := ''not-an-id''\<rparr>) store0 =
       ((500, Message ''Server error''), store0)
   \<and> delete_recipe env0 alice ''not-an-id'' store0 = ((500, Message ''Server error''), store0)"
proof -
  have b: "\<not> isValid env0 ''not-an-id''" by (simp add: env0_def isValid_hex24_def)
  have p: "params_id (rename_pasta\<lparr>params_id := ''not-an-id''\<rparr>) = ''not-an-id''" by simp
  from malformed_id_status [OF b p, where viewer = "Some bob" and st = store0 and u = bob] b
    malformed_id_status [OF b p, where viewer = "Some bob" and st = store0 and u = alice]
  show ?thesis by blast
qed

lemma has_image_pasta:
  "has_image env_destroy_fails pasta =
     Some ''https://res.cloudinary.com/demo/image/upload/v1/Recipedia-Images/recipe-1.jpg''"
  by (simp add: has_image_def env_destroy_fails_def env0_def pasta_def)

lemma findById_destroy_fails:
  "findById env_destroy_fails store0 pasta_id = Inr (Some pasta)"
  using findById_store0 by (simp add: findById_def env_destroy_fails_def)

text \<open>
  C9. Alice's recipe has an image and Cloudinary's \<^verbatim>\<open>destroy\<close> rejects. Her delete and her
  update that clears the image answer 500 and write nothing; her update with a new image
  answers 200.
\<close>

theorem destroy_rejection_aborts:
  "delete_recipe env_destroy_fails alice pasta_id store0 =
     ((500, Message ''Server error''), store0)
   \<and> update_recipe env_destroy_fails alice clear_image store0 =
     ((500, Message ''Server error''), store0)
   \<and> fst (update_recipe env_destroy_fails alice new_image store0) =
     (200, Updated ''Recipe updated successfully''
        (pasta\<lparr>image_url := Some ''https://res.cloudinary.com/demo/image/upload/v1/Recipedia-Images/recipe-2.jpg''\<rparr>))"
proof -
  have o: "createdBy pasta = uid alice" by (simp add: pasta_def)
  have d: "\<And>p. destroy env_destroy_fails p = Inl UpstreamError"
    by (simp add: destroy_def env_destroy_fails_def)
  have s: "\<And>r. save_ok env_destroy_fails r" by (simp add: env_destroy_fails_def env0_def)
  have 1: "delete_recipe env_destroy_fails alice pasta_id store0 =
     ((500, Message ''Server error''), store0)"
    by (simp add: delete_recipe_found [OF findById_destroy_fails] o remove_recipe_def
        has_image_pasta d server_error_def)
  have f: "findById env_destroy_fails store0 (params_id clear_image) = Inr (Some pasta)"
    "findById env_destroy_fails store0 (params_id new_image) = Inr (Some pasta)"
    by (simp_all add: clear_image_def new_image_def findById_destroy_fails)
  have c: "req_file clear_image = None" "body clear_image = [(''clearImage'', JStr ''true'')]"
    by (simp_all add: clear_image_def)
  have n: "req_file new_image = Some \<lparr>path = Some ''https://res.cloudinary.com/demo/image/upload/v1/Recipedia-Images/recipe-2.jpg'',
                       secure_url = None\<rparr>" "body new_image = []"
    by (simp_all add: new_image_def)
  have 2: "update_recipe env_destroy_fails alice clear_image store0 =
     ((500, Message ''Server error''), store0)"
    by (simp add: update_recipe_found [OF f(1)] o save_update_def updated_recipe_def
        update_image_def has_image_pasta d server_error_def c get_field_def)
  have 3: "fst (update_recipe env_destroy_fails alice new_image store0) =
     (200, Updated ''Recipe updated successfully''
        (pasta\<lparr>image_url := Some ''https://res.cloudinary.com/demo/image/upload/v1/Recipedia-Images/recipe-2.jpg''\<rparr>))"
    by (simp add: update_recipe_found [OF f(2)] o save_update_def updated_recipe_def
        update_image_def has_image_pasta d s catch_log_def
        n file_url_def get_field_def update_ingredientsArray_def
        indexed_ingredients_def Object_keys_def update_fields_def update_ingredients_def)
  from 1 2 3 show ?thesis by blast
qed

lemma filter_trim_strings:
  "filter_trim (map JStr ss) = Inr (map JStr (filter (\<lambda>s. trim s \<noteq> []) ss))"
  by (induction ss) simp_all

lemma update_image_ingredients:
  "update_image e req r = Inr r' \<Longrightarrow> ingredients r' = ingredients r"
  by (auto simp: update_image_def split: option.splits if_splits sum.splits)

lemma update_fields_ingredients: "ingredients (update_fields b r) = ingredients r"
  by (simp add: update_fields_def Let_def)

lemma indexed_ingredients_none:
  "\<forall>k \<in> set (Object_keys b). \<not> startsWith k ''ingredients['' \<Longrightarrow> indexed_ingredients b = []"
  by (simp add: indexed_ingredients_def filter_False)

lemma updated_recipe_no_ingredients:
  assumes "update_ingredientsArray (body req) = []" and "updated_recipe e req r = Inr r'"
  shows "ingredients r' = ingredients r"
  using assms
  by (auto simp: updated_recipe_def update_ingredients_def update_fields_ingredients
           split: sum.splits dest!: update_image_ingredients)

lemma updated_recipe_strings:
  assumes "update_ingredientsArray (body req) = map JStr ss" and "ss \<noteq> []"
    and "updated_recipe e req r = Inr r'"
  shows "ingredients r' = map JStr (filter (\<lambda>s. trim s \<noteq> []) ss)"
  using assms
  by (auto simp: updated_recipe_def update_ingredients_def filter_trim_strings
           split: sum.splits)

lemma save_update_stored:
  "save_update e req r st = (resp, st') \<Longrightarrow> st (params_id req) = Some r \<Longrightarrow>
   (fst resp = 200 \<and> (\<exists>r'. updated_recipe e req r = Inr r' \<and> st' = st(params_id req \<mapsto> r')))
   \<or> (fst resp = 500 \<and> st' = st)"
  by (auto simp: save_update_def server_error_def split: sum.splits if_splits)

text \<open>
  C8, as amended. An update by the creator or the admin of a recipe that exists.
  When the \<^verbatim>\<open>ingredients\<close> field of the body is absent or falsy (the empty string) and
  no key starts with \<^verbatim>\<open>ingredients[\<close>, the stored ingredients stay as they were. When the
  field is a non-empty string or a non-empty array of strings and the update answers 200,
  the stored ingredients are the entries that are not blank, in order: none when every
  entry is blank.
\<close>

theorem update_ingredients_frame:
  assumes found: "findById e st (params_id req) = Inr (Some r)"
    and auth: "uid u = createdBy r \<or> email u = ''admin@gmail.com''"
  shows "(\<not> truthy (get_field (body req) ''ingredients'')
            \<and> (\<forall>k \<in> set (Object_keys (body req)). \<not> startsWith k ''ingredients['') \<longrightarrow>
          (\<exists>r'. snd (update_recipe e u req st) (params_id req) = Some r'
                \<and> ingredients r' = ingredients r))
       \<and> (\<forall>ss. ss \<noteq> []
              \<and> (get_field (body req) ''ingredients'' = JArr (map JStr ss)
                 \<or> (\<exists>s. s \<noteq> [] \<and> ss = [s] \<and> get_field (body req) ''ingredients'' = JStr s))
              \<and> fst (fst (update_recipe e u req st)) = 200 \<longrightarrow>
            (\<exists>r'. snd (update_recipe e u req st) (params_id req) = Some r'
                  \<and> ingredients r' = map JStr (filter (\<lambda>s. trim s \<noteq> []) ss)
                  \<and> ((\<forall>s \<in> set ss. trim s = []) \<longrightarrow> ingredients r' = [])))"
proof -
  have stored: "st (params_id req) = Some r" using found by (rule findById_Some)
  have upd: "update_recipe e u req st = save_update e req r st"
    using auth by (auto simp: update_recipe_found [OF found])
  obtain resp st' where res: "save_update e req r st = (resp, st')"
    by (cases "save_update e req r st")
  note cases = save_update_stored [OF res stored]
  have a: "\<exists>r'. snd (update_recipe e u req st) (params_id req) = Some r'
                \<and> ingredients r' = ingredients r"
    if f: "\<not> truthy (get_field (body req) ''ingredients'')"
      and n: "\<forall>k \<in> set (Object_keys (body req)). \<not> startsWith k ''ingredients[''"
  proof -
    have arr: "update_ingredientsArray (body req) = []"
      using f indexed_ingredients_none [OF n] by (simp add: update_ingredientsArray_def)
    from cases show ?thesis
    proof
      assume "fst resp = 200 \<and> (\<exists>r'. updated_recipe e req r = Inr r' \<and> st' = st(params_id req \<mapsto> r'))"
      then obtain r' where u: "updated_recipe e req r = Inr r'"
        and s: "st' = st(params_id req \<mapsto> r')" by blast
      from updated_recipe_no_ingredients [OF arr u] s show ?thesis
        by (simp add: upd res)
    next
      assume "fst resp = 500 \<and> st' = st"
      with stored show ?thesis by (simp add: upd res)
    qed
  qed
  have b: "\<exists>r'. snd (update_recipe e u req st) (params_id req) = Some r'
                  \<and> ingredients r' = map JStr (filter (\<lambda>s. trim s \<noteq> []) ss)
                  \<and> ((\<forall>s \<in> set ss. trim s = []) \<longrightarrow> ingredients r' = [])"
    if ne: "ss \<noteq> []"
      and v: "get_field (body req) ''ingredients'' = JArr (map JStr ss)
                 \<or> (\<exists>s. s \<noteq> [] \<and> ss = [s] \<and> get_field (body req) ''ingredients'' = JStr s)"
      and ok: "fst (fst (update_recipe e u req st)) = 200" for ss
  proof -
    have arr: "update_ingredientsArray (body req) = map JStr ss"
      using v by (auto simp: update_ingredientsArray_def)
    from cases ok obtain r' where u: "updated_recipe e req r = Inr r'"
      and s: "st' = st(params_id req \<mapsto> r')"
      by (auto simp: upd res)
    have i: "ingredients r' = map JStr (filter (\<lambda>s. trim s \<noteq> []) ss)"
      using arr ne u by (rule updated_recipe_strings)
    have "(\<forall>s \<in> set ss. trim s = []) \<longrightarrow> ingredients r' = []"
      by (simp add: i filter_empty_conv)
    with i s show ?thesis by (simp add: upd res)
  qed
  from a b show ?thesis by blast
qed

lemma updated_empty_ingredients: "updated_recipe env0 empty_ingredients pasta = Inr pasta"
  by (simp add: updated_recipe_def empty_ingredients_def update_image_def get_field_def
      update_ingredientsArray_def indexed_ingredients_def Object_keys_def startsWith_def
      update_fields_def update_ingredients_def)

lemma trim_two_spaces: "trim ''  '' = []"
  by (simp add: trim_def is_space_def)

lemma updated_blank_ingredients:
  "updated_recipe env0 blank_ingredients pasta = Inr (pasta\<lparr>ingredients := []\<rparr>)"
  by (simp add: updated_recipe_def blank_ingredients_def update_image_def get_field_def
      update_ingredientsArray_def update_fields_def update_ingredients_def trim_def
      is_space_def)

lemma update_empty_ingredients:
  "update_recipe env0 alice empty_ingredients store0 =
     ((200, Updated ''Recipe updated successfully'' pasta), store0(pasta_id \<mapsto> pasta))"
proof -
  have f: "findById env0 store0 (params_id empty_ingredients) = Inr (Some pasta)"
    by (simp add: empty_ingredients_def findById_store0)
  have p: "params_id empty_ingredients = pasta_id" by (simp add: empty_ingredients_def)
  have s: "\<And>x. save_ok env0 x" by (simp add: env0_def)
  show ?thesis
    by (simp add: update_recipe_found [OF f] save_update_def updated_empty_ingredients s p)
       (simp add: pasta_def)
qed

lemma update_blank_ingredients:
  "update_recipe env0 alice blank_ingredients store0 =
     ((200, Updated ''Recipe updated successfully'' (pasta\<lparr>ingredients := []\<rparr>)),
      store0(pasta_id \<mapsto> pasta\<lparr>ingredients := []\<rparr>))"
proof -
  have f: "findById env0 store0 (params_id blank_ingredients) = Inr (Some pasta)"
    by (simp add: blank_ingredients_def findById_store0)
  have p: "params_id blank_ingredients = pasta_id" by (simp add: blank_ingredients_def)
  have s: "\<And>x. save_ok env0 x" by (simp add: env0_def)
  show ?thesis
    by (simp add: update_recipe_found [OF f] save_update_def updated_blank_ingredients s p)
       (simp add: pasta_def)
qed

text \<open>
  The claim as it stands fails when the \<^verbatim>\<open>ingredients\<close> field is the empty string: the
  body has the key, its one entry is blank, the update answers 200, and the stored
  ingredients are not the filtered sequence (which is empty) but the two of before.
\<close>

theorem update_empty_string_counterexample:
  "map_of (body empty_ingredients) ''ingredients'' = Some (JStr [])
   \<and> trim [] = []
   \<and> filter_trim [JStr []] = Inr []
   \<and> update_recipe env0 alice empty_ingredients store0 =
       ((200, Updated ''Recipe updated successfully'' pasta), store0(pasta_id \<mapsto> pasta))
   \<and> ingredients pasta = [JStr ''pasta'', JStr ''salt'']"
  by (simp add: update_empty_ingredients)
     (simp add: empty_ingredients_def trim_def pasta_def)

theorem update_ingredients_frame_witness:
  "findById env0 store0 (params_id rename_pasta) = Inr (Some pasta)
   \<and> uid alice = createdBy pasta
   \<and> (\<exists>r'. snd (update_recipe env0 alice rename_pasta store0) pasta_id = Some r'
           \<and> ingredients r' = [JStr ''pasta'', JStr ''salt''])
   \<and> fst (fst (update_recipe env0 alice blank_ingredients store0)) = 200
   \<and> (\<exists>r'. snd (update_recipe env0 alice blank_ingredients store0) pasta_id = Some r'
           \<and> ingredients r' = [])"
proof -
  have f1: "findById env0 store0 (params_id rename_pasta) = Inr (Some pasta)"
    by (simp add: rename_pasta_def findById_store0)
  have f2: "findById env0 store0 (params_id blank_ingredients) = Inr (Some pasta)"
    by (simp add: blank_ingredients_def findById_store0)
  have o: "uid alice = createdBy pasta" by (simp add: pasta_def)
  then have auth: "uid alice = createdBy pasta \<or> email alice = ''admin@gmail.com''" ..
  have p: "params_id rename_pasta = pasta_id" "params_id blank_ingredients = pasta_id"
    by (simp_all add: rename_pasta_def blank_ingredients_def)
  have absent: "\<not> truthy (get_field (body rename_pasta) ''ingredients'')
     \<and> (\<forall>k \<in> set (Object_keys (body rename_pasta)). \<not> startsWith k ''ingredients['')"
    by (simp add: rename_pasta_def get_field_def Object_keys_def startsWith_def)
  from update_ingredients_frame [OF f1 auth] absent
  have 1: "\<exists>r'. snd (update_recipe env0 alice rename_pasta store0) pasta_id = Some r'
           \<and> ingredients r' = [JStr ''pasta'', JStr ''salt'']"
    by (simp add: p) (simp add: pasta_def)
  have ok: "fst (fst (update_recipe env0 alice blank_ingredients store0)) = 200"
    by (simp add: update_blank_ingredients)
  have given: "[[], ''  ''] \<noteq> []
     \<and> (get_field (body blank_ingredients) ''ingredients'' = JArr (map JStr [[], ''  ''])
        \<or> (\<exists>s. s \<noteq> [] \<and> [[], ''  ''] = [s]
              \<and> get_field (body blank_ingredients) ''ingredients'' = JStr s))
     \<and> fst (fst (update_recipe env0 alice blank_ingredients store0)) = 200"
    using ok by (simp add: blank_ingredients_def get_field_def)
  have blank: "\<forall>s \<in> set [[], ''  '']. trim s = []"
    by (simp add: trim_two_spaces) (simp add: trim_def)
  from update_ingredients_frame [OF f2 auth] given blank
  have 2: "\<exists>r'. snd (update_recipe env0 alice blank_ingredients store0) pasta_id = Some r'
           \<and> ingredients r' = []"
    unfolding p by blast
  from f1 o 1 ok 2 show ?thesis by blast
qed

lemma isArray_iff: "isArray v \<longleftrightarrow> (\<exists>xs. v = JArr xs)"
  by (cases v) simp_all

lemma filter_trim_truthy:
  "\<forall>x \<in> set xs. \<exists>s. x = JStr s \<and> (trim s = [] \<longrightarrow> s = []) \<Longrightarrow>
   filter_trim xs = Inr (filter truthy xs)"
proof (induction xs)
  case Nil
  then show ?case by simp
next
  case (Cons x xs)
  then obtain s where x: "x = JStr s" and t: "trim s = [] \<longrightarrow> s = []" by auto
  have "trim [] = []" by (simp add: trim_def)
  with t have "trim s \<noteq> [] \<longleftrightarrow> s \<noteq> []" by auto
  with Cons x show ?case by simp
qed

lemma parse_json_ab: "JSON_parse_model json_ab = Some (JArr [JStr ''a'', JStr ''b''])"
  by (simp add: JSON_parse_model_def json_ab_def unescape_def is_json_ws_def)

lemma parse_a_comma_b: "JSON_parse_model ''a,b'' = None"
  by (simp add: JSON_parse_model_def is_json_ws_def is_digit_def)

lemma parse_eleven: "JSON_parse_model ''i0,i1,i2,i3,i4,i5,i6,i7,i8,i9,i10'' = None"
  by (simp add: JSON_parse_model_def is_json_ws_def is_digit_def)

lemma parse_five: "JSON_parse_model ''5'' = Some (JNum 5)"
  by (simp add: JSON_parse_model_def is_json_ws_def is_digit_def read_int_def
      nat_of_digits_def)

lemma parse_empty: "JSON_parse_model [] = None"
  by (simp add: JSON_parse_model_def)

text \<open>
  The claim of C7 as it stands fails on a JSON-encoded array: the create handler decodes
  it, the update handler keeps the text as the one ingredient.
\<close>

theorem update_create_json_counterexample:
  "get_field json_body ''ingredients'' = JStr json_ab
   \<and> create_ingredientsArray env0 json_body = [JStr ''a'', JStr ''b'']
   \<and> update_ingredientsArray json_body = [JStr json_ab]
   \<and> update_ingredientsArray json_body \<noteq> create_ingredientsArray env0 json_body"
proof -
  have g: "get_field json_body ''ingredients'' = JStr json_ab"
    by (simp add: json_body_def get_field_def)
  have n: "json_ab \<noteq> []" by (simp add: json_ab_def)
  have c: "create_ingredientsArray env0 json_body = [JStr ''a'', JStr ''b'']"
    using n by (simp add: create_ingredientsArray_def g env0_def parse_json_ab)
  have u: "update_ingredientsArray json_body = [JStr json_ab]"
    using n by (simp add: update_ingredientsArray_def g)
  from g c u show ?thesis by simp
qed

text \<open>
  C7, as amended. The array of ingredients that the update handler reads from a body is
  the one the create handler reads from it when the body gives the ingredients under
  indexed keys (no truthy \<^verbatim>\<open>ingredients\<close> field), as a non-empty string that \<^verbatim>\<open>JSON.parse\<close>
  does not read as an array, or as an array whose string form \<^verbatim>\<open>JSON.parse\<close> rejects.
  On a string that \<^verbatim>\<open>JSON.parse\<close> reads as an array the create handler takes the decoded
  elements and the update handler the string itself. On entries that are strings, none
  made of white space only, the two filters keep the same entries.
\<close>

theorem update_create_same_array:
  "(\<not> truthy (get_field b ''ingredients'') \<longrightarrow>
      update_ingredientsArray b = create_ingredientsArray e b
      \<and> create_ingredientsArray e b = indexed_ingredients b)
   \<and> (\<forall>s. get_field b ''ingredients'' = JStr s \<and> s \<noteq> []
            \<and> (\<forall>xs. JSON_parse e s \<noteq> Some (JArr xs)) \<longrightarrow>
          update_ingredientsArray b = create_ingredientsArray e b
          \<and> create_ingredientsArray e b = [JStr s])
   \<and> (\<forall>xs. get_field b ''ingredients'' = JArr xs
            \<and> JSON_parse e (ToString (JArr xs)) = None \<longrightarrow>
          update_ingredientsArray b = create_ingredientsArray e b
          \<and> create_ingredientsArray e b = xs)
   \<and> (\<forall>s xs. get_field b ''ingredients'' = JStr s \<and> s \<noteq> []
            \<and> JSON_parse e s = Some (JArr xs) \<longrightarrow>
          create_ingredientsArray e b = xs \<and> update_ingredientsArray b = [JStr s])
   \<and> ((\<forall>x \<in> set (update_ingredientsArray b). \<exists>s. x = JStr s \<and> (trim s = [] \<longrightarrow> s = []))
        \<and> update_ingredientsArray b = create_ingredientsArray e b \<longrightarrow>
          filter_trim (update_ingredientsArray b) =
            Inr (filter truthy (create_ingredientsArray e b)))"
proof -
  have 1: "\<not> truthy (get_field b ''ingredients'') \<longrightarrow>
      update_ingredientsArray b = create_ingredientsArray e b
      \<and> create_ingredientsArray e b = indexed_ingredients b"
    by (simp add: update_ingredientsArray_def create_ingredientsArray_def Let_def)
  have 2: "update_ingredientsArray b = create_ingredientsArray e b
          \<and> create_ingredientsArray e b = [JStr s]"
    if "get_field b ''ingredients'' = JStr s" "s \<noteq> []"
      "\<forall>xs. JSON_parse e s \<noteq> Some (JArr xs)" for s
    using that
    by (auto simp: update_ingredientsArray_def create_ingredientsArray_def Let_def
        isArray_iff split: option.splits)
  have 3: "update_ingredientsArray b = create_ingredientsArray e b
          \<and> create_ingredientsArray e b = xs"
    if "get_field b ''ingredients'' = JArr xs" "JSON_parse e (ToString (JArr xs)) = None" for xs
    using that by (simp add: update_ingredientsArray_def create_ingredientsArray_def Let_def)
  have 4: "create_ingredientsArray e b = xs \<and> update_ingredientsArray b = [JStr s]"
    if "get_field b ''ingredients'' = JStr s" "s \<noteq> []" "JSON_parse e s = Some (JArr xs)"
    for s xs
    using that by (simp add: update_ingredientsArray_def create_ingredientsArray_def Let_def)
  have 5: "(\<forall>x \<in> set (update_ingredientsArray b). \<exists>s. x = JStr s \<and> (trim s = [] \<longrightarrow> s = []))
        \<and> update_ingredientsArray b = create_ingredientsArray e b \<longrightarrow>
          filter_trim (update_ingredientsArray b) =
            Inr (filter truthy (create_ingredientsArray e b))"
    using filter_trim_truthy [of "update_ingredientsArray b"] by auto
  from 1 2 3 4 5 show ?thesis by blast
qed

theorem update_create_same_array_witness:
  "get_field native_body ''ingredients'' = JArr [JStr ''a'', JStr ''b'']
   \<and> JSON_parse env0 (ToString (JArr [JStr ''a'', JStr ''b''])) = None
   \<and> update_ingredientsArray native_body = create_ingredientsArray env0 native_body
   \<and> create_ingredientsArray env0 native_body = [JStr ''a'', JStr ''b'']
   \<and> \<not> truthy (get_field eleven_indexed ''ingredients'')
   \<and> update_ingredientsArray eleven_indexed = create_ingredientsArray env0 eleven_indexed"
proof -
  have g: "get_field native_body ''ingredients'' = JArr [JStr ''a'', JStr ''b'']"
    by (simp add: native_body_def get_field_def)
  have p: "JSON_parse env0 (ToString (JArr [JStr ''a'', JStr ''b''])) = None"
    by (simp add: env0_def parse_a_comma_b)
  have f: "\<not> truthy (get_field eleven_indexed ''ingredients'')"
    by (simp add: eleven_indexed_def get_field_def)
  from update_create_same_array [of native_body env0] g p
  have 1: "update_ingredientsArray native_body = create_ingredientsArray env0 native_body
     \<and> create_ingredientsArray env0 native_body = [JStr ''a'', JStr ''b'']"
    by blast
  from update_create_same_array [of eleven_indexed env0] f
  have 2: "update_ingredientsArray eleven_indexed = create_ingredientsArray env0 eleven_indexed"
    by blast
  from g p f 1 2 show ?thesis by blast
qed

text \<open>
  C5. Eleven ingredients under the keys \<^verbatim>\<open>ingredients[0]\<close> to \<^verbatim>\<open>ingredients[10]\<close> come out
  with the eleventh in second place, for \<^verbatim>\<open>sort()\<close> compares the keys as strings; the same
  eleven as an array come out in their order. An array of the one ingredient 5 comes out
  as an array holding that array, not a string.
\<close>

theorem indexed_keys_order:
  "create_ingredientsArray env0 eleven_indexed =
     map JStr [''i0'', ''i10'', ''i1'', ''i2'', ''i3'', ''i4'', ''i5'', ''i6'', ''i7'', ''i8'', ''i9'']
   \<and> create_ingredientsArray env0 eleven_native =
     map JStr [''i0'', ''i1'', ''i2'', ''i3'', ''i4'', ''i5'', ''i6'', ''i7'', ''i8'', ''i9'', ''i10'']
   \<and> create_ingredientsArray env0 single_numeric = [JArr [JStr ''5'']]"
proof -
  have 1: "create_ingredientsArray env0 eleven_indexed =
     map JStr [''i0'', ''i10'', ''i1'', ''i2'', ''i3'', ''i4'', ''i5'', ''i6'', ''i7'', ''i8'', ''i9'']"
    by (simp add: create_ingredientsArray_def eleven_indexed_def get_field_def
        indexed_ingredients_def Object_keys_def startsWith_def)
  have 2: "create_ingredientsArray env0 eleven_native =
     map JStr [''i0'', ''i1'', ''i2'', ''i3'', ''i4'', ''i5'', ''i6'', ''i7'', ''i8'', ''i9'', ''i10'']"
    by (simp add: create_ingredientsArray_def eleven_native_def get_field_def env0_def
        parse_eleven)
  have 3: "create_ingredientsArray env0 single_numeric = [JArr [JStr ''5'']]"
    by (simp add: create_ingredientsArray_def single_numeric_def get_field_def env0_def
        parse_five)
  from 1 2 3 show ?thesis by blast
qed

lemma create_recipe_status_400:
  "fst (fst (create_recipe e u req st)) = 400 \<longleftrightarrow>
     (\<not> truthy (get_field (body req) ''title'')
      \<or> \<not> truthy (get_field (body req) ''instructions'')
      \<or> \<not> truthy (get_field (body req) ''category'')
      \<or> create_ingredientsArray e (body req) = [])"
  by (auto simp: create_recipe_def Let_def missing_fields_def server_error_def)

lemma create_recipe_400_store:
  "fst (fst (create_recipe e u req st)) = 400 \<Longrightarrow> snd (create_recipe e u req st) = st"
  by (auto simp: create_recipe_def Let_def missing_fields_def server_error_def
      split: if_splits)

lemma blank_create_array: "create_ingredientsArray env0 (body blank_create) = [JStr []]"
  by (simp add: create_ingredientsArray_def blank_create_def get_field_def env0_def
      parse_empty)

text \<open>
  C6. The create handler answers 400 exactly when title, instructions or category is
  falsy or the array of ingredients, before blank entries are dropped, is empty; it
  writes nothing then. A request whose one ingredient is the empty string is therefore
  accepted: the response is 201 and the recipe stored has no ingredient.
\<close>

theorem create_validation:
  "(fst (fst (create_recipe e u req st)) = 400 \<longleftrightarrow>
      (\<not> truthy (get_field (body req) ''title'')
       \<or> \<not> truthy (get_field (body req) ''instructions'')
       \<or> \<not> truthy (get_field (body req) ''category'')
       \<or> create_ingredientsArray e (body req) = []))
   \<and> (fst (fst (create_recipe e u req st)) = 400 \<longrightarrow> snd (create_recipe e u req st) = st)
   \<and> filter truthy (create_ingredientsArray env0 (body blank_create)) = []
   \<and> fst (fst (create_recipe env0 alice blank_create store0)) = 201
   \<and> (\<exists>r. snd (create_recipe env0 alice blank_create store0) (new_id env0) = Some r
          \<and> ingredients r = [] \<and> title r = JStr ''Pasta'')"
proof -
  have t: "truthy (get_field (body blank_create) ''title'')"
    "truthy (get_field (body blank_create) ''instructions'')"
    "truthy (get_field (body blank_create) ''category'')"
    by (simp_all add: blank_create_def get_field_def)
  have s: "\<And>r. save_ok env0 r" by (simp add: env0_def)
  have n: "store0 (new_id env0) = None" by (simp add: store0_def env0_def pasta_id_def)
  have c: "create_recipe env0 alice blank_create store0 =
      ((201, RecipeDoc (new_Recipe alice blank_create [JStr []])),
       store0(new_id env0 \<mapsto> new_Recipe alice blank_create [JStr []]))"
    using t s n by (simp add: create_recipe_def blank_create_array Let_def)
  have "ingredients (new_Recipe alice blank_create [JStr []]) = []
      \<and> title (new_Recipe alice blank_create [JStr []]) = JStr ''Pasta''"
    by (simp add: new_Recipe_def blank_create_def get_field_def)
  with c create_recipe_status_400 [of e u req st] create_recipe_400_store [of e u req st]
  show ?thesis by (simp add: blank_create_array)
qed

theorem create_validation_witness:
  "\<not> truthy (get_field (body untitled_create) ''title'')
   \<and> fst (fst (create_recipe env0 alice untitled_create store0)) = 400
   \<and> snd (create_recipe env0 alice untitled_create store0) = store0"
proof -
  have t: "\<not> truthy (get_field (body untitled_create) ''title'')"
    by (simp add: untitled_create_def get_field_def)
  from create_validation [of env0 alice untitled_create store0] t
  show ?thesis by blast
qed

end
